theory Spec2Isabelle
  imports Complex_Main
begin

section \<open>ScorAI client: a shallow embedding of the TypeScript sources\<close>

text \<open>
  The repository is the Next.js client of ScorAI: the API client (\<open>lib/api.ts\<close>), the
  session store, and the onboarding, dashboard, triggers and credit pages. Each page is a
  React component; its \<open>useState\<close> cells are the fields of a record, and each event
  handler is a function from the state before to the state after. What a handler awaits
  from the outside world (the outcome of a \<open>fetch\<close>, the clock, the random generator) is
  an argument of the function. The backend the client talks to is not part of the
  repository; where a property is about the backend, its components are modelled from the
  specification, in the subsections that say so.

  JavaScript strings are modelled as \<open>string\<close>, with the UTF-8 bytes of the source file
  for the characters outside ASCII. JavaScript numbers that the code only uses as whole
  amounts are \<open>int\<close>; decimal literals such as \<open>0.10\<close> and \<open>0.72\<close> are the rationals they
  denote.
\<close>

subsection \<open>Strings and numbers\<close>

definition digit_char :: "nat \<Rightarrow> char" where
  "digit_char d = ''0123456789'' ! d"

text \<open>The decimal digits of a natural number, as a template literal prints it.\<close>

function decimal :: "nat \<Rightarrow> string" where
  "decimal n = (if n < 10 then [digit_char n] else decimal (n div 10) @ [digit_char (n mod 10)])"
  by pat_completeness auto
termination
  by (relation "measure (\<lambda>n. n)") auto

declare decimal.simps [simp del]

text \<open>
  JavaScript truthiness of a value of type \<open>string | null\<close>: \<open>null\<close> and the empty
  string are falsy.
\<close>

definition truthy_string :: "string option \<Rightarrow> bool" where
  "truthy_string s = (case s of None \<Rightarrow> False | Some v \<Rightarrow> v \<noteq> [])"

subsection \<open>JSON values\<close>

text \<open>
  What \<open>res.json()\<close> can produce. An object is the list of its members in the order of
  the text; \<open>JSON.parse\<close> keeps the last of two members with one key.
\<close>

datatype json =
    JNull
  | JBool bool
  | JNum rat
  | JStr string
  | JArr "json list"
  | JObj "(string \<times> json) list"

text \<open>
  Reading a property \<open>v.k\<close>. \<open>None\<close> is \<open>undefined\<close>; reading a property of \<open>null\<close>
  throws a \<open>TypeError\<close>, which is the outer \<open>None\<close>. Numbers, strings, booleans and
  arrays have no property named \<open>detail\<close>, \<open>message\<close>, \<open>user_id\<close> or
  \<open>referral_code\<close>, the only keys read here.
\<close>

definition get_prop :: "json \<Rightarrow> string \<Rightarrow> json option option" where
  "get_prop v k =
     (case v of
        JNull \<Rightarrow> None
      | JObj ms \<Rightarrow> Some (map_of (rev ms) k)
      | _ \<Rightarrow> Some None)"

text \<open>Truthiness of a value read from JSON, \<open>undefined\<close> included.\<close>

definition truthy :: "json option \<Rightarrow> bool" where
  "truthy v =
     (case v of
        None \<Rightarrow> False
      | Some JNull \<Rightarrow> False
      | Some (JBool b) \<Rightarrow> b
      | Some (JNum x) \<Rightarrow> x \<noteq> 0
      | Some (JStr s) \<Rightarrow> s \<noteq> []
      | Some (JArr _) \<Rightarrow> True
      | Some (JObj _) \<Rightarrow> True)"

subsection \<open>The API client (\<open>lib/api.ts\<close>)\<close>

text \<open>
  \<^verbatim>\<open>const API_BASE = process.env.NEXT_PUBLIC_API_URL || "http://localhost:8000/api/v1";\<close>
\<close>

definition API_BASE :: "string option \<Rightarrow> string" where
  "API_BASE NEXT_PUBLIC_API_URL =
     (if truthy_string NEXT_PUBLIC_API_URL then the NEXT_PUBLIC_API_URL
      else ''http://localhost:8000/api/v1'')"

text \<open>
  The members of \<open>RequestInit\<close> that the client sets. The body is the value handed to
  \<open>JSON.stringify\<close>.
\<close>

record RequestInit =
  init_method :: "string option"
  init_body :: "json option"
  init_headers :: "(string \<times> string) list option"

text \<open>
  The second argument of \<open>fetch\<close>:
  \<^verbatim>\<open>{ headers: { "Content-Type": "application/json", ...options?.headers }, ...options }\<close>.
  The spread of \<open>options\<close> comes last, so a \<open>headers\<close> member of \<open>options\<close> replaces the
  merged headers.
\<close>

definition fetch_init :: "RequestInit option \<Rightarrow> RequestInit" where
  "fetch_init options =
     (case options of
        None \<Rightarrow>
          \<lparr>init_method = None, init_body = None,
           init_headers = Some [(''Content-Type'', ''application/json'')]\<rparr>
      | Some opt \<Rightarrow>
          \<lparr>init_method = init_method opt, init_body = init_body opt,
           init_headers =
             (case init_headers opt of
                None \<Rightarrow> Some [(''Content-Type'', ''application/json'')]
              | Some h \<Rightarrow> Some h)\<rparr>)"

text \<open>The method \<open>fetch\<close> uses: \<open>GET\<close> when the init names none.\<close>

definition http_method :: "RequestInit \<Rightarrow> string" where
  "http_method init = (case init_method init of None \<Rightarrow> ''GET'' | Some m \<Rightarrow> m)"

text \<open>
  What the client reads of a \<open>Response\<close>: \<open>ok\<close>, \<open>status\<close>, and the outcome of
  \<open>res.json()\<close>, which is \<open>None\<close> when the promise rejects (the body is not JSON).
\<close>

record Response =
  res_ok :: bool
  res_status :: nat
  res_json :: "json option"

text \<open>\<open>fetch\<close> rejects with a \<open>TypeError\<close> when the request cannot be made.\<close>

datatype fetch_outcome = Rejected | Resolved Response

text \<open>
  What a call can throw: \<open>Error v\<close> is \<open>new Error(v)\<close>, whose message is the string of
  \<open>v\<close> (\<open>v\<close> itself when it is a string); a \<open>TypeError\<close> comes from \<open>fetch\<close> or from
  reading a property of \<open>null\<close>, a \<open>SyntaxError\<close> from parsing a body that is not JSON.
\<close>

datatype js_error = Error json | TypeError | SyntaxError

text \<open>The environment of the client: the build-time variable and the network.\<close>

record Env =
  NEXT_PUBLIC_API_URL :: "string option"
  fetch :: "string \<Rightarrow> RequestInit \<Rightarrow> fetch_outcome"

text \<open>
  \<^verbatim>\<open>
  async function request<T>(path: string, options?: RequestInit): Promise<T> {
    const res = await fetch(`${API_BASE}${path}`, {
      headers: { "Content-Type": "application/json", ...options?.headers },
      ...options,
    });
    if (!res.ok) {
      const err = await res.json().catch(() => ({ message: "Erreur serveur" }));
      throw new Error(err.detail || err.message || `Erreur ${res.status}`);
    }
    return res.json();
  }
  \<close>
  \<open>Inl\<close> is a rejected promise, \<open>Inr\<close> a fulfilled one.
\<close>

definition error_of_body :: "nat \<Rightarrow> json \<Rightarrow> js_error" where
  "error_of_body status err =
     (case get_prop err ''detail'' of
        None \<Rightarrow> TypeError
      | Some detail \<Rightarrow>
          if truthy detail then Error (the detail)
          else (case get_prop err ''message'' of
                  None \<Rightarrow> TypeError
                | Some message \<Rightarrow>
                    if truthy message then Error (the message)
                    else Error (JStr (''Erreur '' @ decimal status))))"

definition request :: "Env \<Rightarrow> string \<Rightarrow> RequestInit option \<Rightarrow> js_error + json" where
  "request env path options =
     (case fetch env (API_BASE (NEXT_PUBLIC_API_URL env) @ path) (fetch_init options) of
        Rejected \<Rightarrow> Inl TypeError
      | Resolved res \<Rightarrow>
          if \<not> res_ok res then
            Inl (error_of_body (res_status res)
                   (case res_json res of
                      None \<Rightarrow> JObj [(''message'', JStr ''Erreur serveur'')]
                    | Some v \<Rightarrow> v))
          else (case res_json res of None \<Rightarrow> Inl SyntaxError | Some v \<Rightarrow> Inr v))"

text \<open>
  The members of \<open>api\<close> used below, each as the path and options it hands to
  \<open>request\<close>, and the member itself.
\<close>

record api_call =
  call_path :: string
  call_options :: "RequestInit option"

definition run_call :: "Env \<Rightarrow> api_call \<Rightarrow> js_error + json" where
  "run_call env c = request env (call_path c) (call_options c)"

text \<open>
  \<^verbatim>\<open>
  signup: (data) => request<...>("/auth/signup", { method: "POST", body: JSON.stringify(data) }),
  \<close>
\<close>

definition signup_call :: "json \<Rightarrow> api_call" where
  "signup_call data =
     \<lparr>call_path = ''/auth/signup'',
      call_options = Some \<lparr>init_method = Some ''POST'', init_body = Some data, init_headers = None\<rparr>\<rparr>"

text \<open>
  \<^verbatim>\<open>
  getBalance: (userId: string) =>
    request<{
      user_id: string;
      virtual_balance_fcfa: number;
      confirmed_balance_fcfa: number;
      pending_settlement_fcfa: number;
      total_saved_fcfa: number;
      current_streak_days: number;
      longest_streak_days: number;
    }>(`/wallet/balance/${userId}`),
  \<close>
\<close>

definition getBalance_call :: "string \<Rightarrow> api_call" where
  "getBalance_call userId =
     \<lparr>call_path = ''/wallet/balance/'' @ userId, call_options = None\<rparr>"

definition getBalance :: "Env \<Rightarrow> string \<Rightarrow> js_error + json" where
  "getBalance env userId = run_call env (getBalance_call userId)"

text \<open>The member names of the type \<open>getBalance\<close> declares for its result, in order.\<close>

definition getBalance_fields :: "string list" where
  "getBalance_fields =
     [''user_id'', ''virtual_balance_fcfa'', ''confirmed_balance_fcfa'',
      ''pending_settlement_fcfa'', ''total_saved_fcfa'', ''current_streak_days'',
      ''longest_streak_days'']"

text \<open>
  The error of a response that is not ok as C9 words it, for comparison with
  \<open>error_of_body\<close>: the \<open>detail\<close> member of the body if the body has one, else its
  \<open>message\<close> member if it has one, else \<open>Erreur\<close> and the status; \<open>Erreur serveur\<close>
  when the body is not JSON.
\<close>

definition member :: "json \<Rightarrow> string \<Rightarrow> json option" where
  "member v k = (case v of JObj ms \<Rightarrow> map_of (rev ms) k | _ \<Rightarrow> None)"

definition claimed_error :: "nat \<Rightarrow> json option \<Rightarrow> js_error" where
  "claimed_error status body =
     (case body of
        None \<Rightarrow> Error (JStr ''Erreur serveur'')
      | Some v \<Rightarrow>
          (case member v ''detail'' of
             Some d \<Rightarrow> Error d
           | None \<Rightarrow>
               (case member v ''message'' of
                  Some m \<Rightarrow> Error m
                | None \<Rightarrow> Error (JStr (''Erreur '' @ decimal status)))))"

subsection \<open>The triggers page\<close>

text \<open>The interface \<open>Trigger\<close> of \<open>app/triggers/page.tsx\<close>; the fields carry the prefix \<open>t_\<close>.\<close>

record Trigger =
  t_id :: string
  t_team_name :: string
  t_event_type :: string
  t_amount_fcfa :: int
  t_times_triggered :: int
  t_total_saved_fcfa :: int
  t_status :: string

definition DEMO_TRIGGERS :: "Trigger list" where
  "DEMO_TRIGGERS =
     [\<lparr>t_id = ''demo1'', t_team_name = ''Arsenal'', t_event_type = ''WIN'', t_amount_fcfa = 1000,
        t_times_triggered = 12, t_total_saved_fcfa = 12000, t_status = ''ACTIVE''\<rparr>,
      \<lparr>t_id = ''demo2'', t_team_name = ''Arsenal'', t_event_type = ''GOAL'', t_amount_fcfa = 500,
        t_times_triggered = 28, t_total_saved_fcfa = 14000, t_status = ''ACTIVE''\<rparr>]"

text \<open>
  The state of \<open>TriggersPage\<close> that \<open>togglePause\<close> reads and writes: the \<open>triggers\<close> cell,
  the user id of the session, and the requests the page has sent to the backend
  (\<open>PUT /triggers/pause/{id}?user_id={user}\<close>, recorded as the pair of the two ids).
\<close>

record TriggersPage =
  triggers :: "Trigger list"
  tp_userId :: "string option"
  tp_pause_requests :: "(string \<times> string) list"

text \<open>
  \<^verbatim>\<open>
  const togglePause = async (t: Trigger) => {
      setTriggers(triggers.map(tr =>
          tr.id === t.id ? { ...tr, status: tr.status === "ACTIVE" ? "PAUSED" : "ACTIVE" } : tr
      ));
      if (session.userId) {
          api.pauseTrigger(t.id, session.userId).catch(() => { });
      }
  };
  \<close>
  The request is fired and forgotten: its outcome never reaches the state.
\<close>

definition togglePause :: "Trigger \<Rightarrow> TriggersPage \<Rightarrow> TriggersPage" where
  "togglePause t st =
     st\<lparr>triggers :=
           map (\<lambda>tr. if t_id tr = t_id t
                     then tr\<lparr>t_status := (if t_status tr = ''ACTIVE'' then ''PAUSED'' else ''ACTIVE'')\<rparr>
                     else tr)
               (triggers st),
        tp_pause_requests :=
           (if truthy_string (tp_userId st)
            then tp_pause_requests st @ [(t_id t, the (tp_userId st))]
            else tp_pause_requests st)\<rparr>"

subsection \<open>The session store (\<open>lib/session\<close>)\<close>

text \<open>
  The interface \<open>UserSession\<close> declares each field as \<open>string | null\<close>. At run time a
  field holds whatever was assigned to it: \<open>None\<close> is \<open>undefined\<close>, \<open>Some JNull\<close> is
  \<open>null\<close>, \<open>Some (JStr s)\<close> a string.
\<close>

record UserSession =
  userId :: "json option"
  displayName :: "json option"
  referralCode :: "json option"

definition SESSION_KEY :: string where
  "SESSION_KEY = ''scorai_session''"

text \<open>
  The store is the state cell of \<open>SessionProvider\<close> and the browser's \<open>localStorage\<close>;
  an entry of the storage is modelled by the session whose JSON text it holds (a field that
  is \<open>undefined\<close> is left out of the text, and is \<open>undefined\<close> when the text is read back).
  \<^verbatim>\<open>
  const setSession = (s: UserSession) => {
      setSessionState(s);
      localStorage.setItem(SESSION_KEY, JSON.stringify(s));
  };
  \<close>
\<close>

record SessionStore =
  session :: UserSession
  localStorage :: "string \<rightharpoonup> UserSession"

definition setSession :: "UserSession \<Rightarrow> SessionStore \<Rightarrow> SessionStore" where
  "setSession s store = store\<lparr>session := s, localStorage := (localStorage store)(SESSION_KEY \<mapsto> s)\<rparr>"

subsection \<open>The onboarding page\<close>

text \<open>An entry of \<open>TEAMS\<close>; the fields carry the prefix \<open>team_\<close>.\<close>

record Team =
  team_id :: int
  team_name :: string
  team_league :: string
  team_logo :: string

text \<open>
  What \<open>handleComplete\<close> takes from outside: \<open>Date.now()\<close>,
  \<open>Math.floor(Math.random() * 99)\<close>, the string methods \<open>slice\<close> (with its two indices,
  which count UTF-16 code units) and \<open>toUpperCase\<close>, and the outcomes of the two backend
  calls, each a function of the data sent. A call resolves to the JSON body that
  \<open>request\<close> returns: the type \<open>api.signup\<close> declares for it,
  \<open>{ user_id: string; referral_code: string; message: string }\<close>, is not checked.
\<close>

record OnboardingEnv =
  now :: nat
  random99 :: nat
  slice :: "string \<Rightarrow> nat \<Rightarrow> nat \<Rightarrow> string"
  toUpperCase :: "string \<Rightarrow> string"
  signup :: "json \<Rightarrow> js_error + json"
  createTrigger :: "json \<Rightarrow> js_error + json"

text \<open>
  The cells of \<open>OnboardingPage\<close>, the session store, \<open>window.location.href\<close>, and the
  backend calls made so far.
\<close>

record OnboardingPage =
  step :: nat
  name :: string
  phone :: string
  selectedTeam :: "Team option"
  selectedEvent :: string
  amount :: int
  loading :: bool
  error :: string
  store :: SessionStore
  location_href :: string
  calls :: "api_call list"

definition signup_data :: "OnboardingPage \<Rightarrow> Team \<Rightarrow> json" where
  "signup_data st team =
     JObj [(''phone_number'', JStr (phone st)),
           (''display_name'', JStr (name st)),
           (''favorite_team_id'', JNum (of_int (team_id team))),
           (''favorite_team_name'', JStr (team_name team))]"

text \<open>
  The data of the first trigger. \<open>JSON.stringify\<close> leaves out a \<open>user_id\<close> that is
  \<open>undefined\<close>.
\<close>

definition createTrigger_data :: "OnboardingPage \<Rightarrow> Team \<Rightarrow> json option \<Rightarrow> json" where
  "createTrigger_data st team user =
     JObj ((case user of None \<Rightarrow> [] | Some v \<Rightarrow> [(''user_id'', v)]) @
           [(''team_id'', JNum (of_int (team_id team))),
            (''team_name'', JStr (team_name team)),
            (''event_type'', JStr (selectedEvent st)),
            (''amount_fcfa'', JNum (of_int (amount st)))])"

definition createTrigger_call :: "json \<Rightarrow> api_call" where
  "createTrigger_call data =
     \<lparr>call_path = ''/triggers/create'',
      call_options = Some \<lparr>init_method = Some ''POST'', init_body = Some data, init_headers = None\<rparr>\<rparr>"

text \<open>
  \<^verbatim>\<open>
  const handleComplete = async () => {
      if (!selectedTeam) return;
      setLoading(true);
      setError("");
      let userId = "demo_" + Date.now();
      let referralCode = "SCOR" + name.slice(0, 2).toUpperCase() + Math.floor(Math.random() * 99);
      try {
          const signup = await api.signup({ ... });
          userId = signup.user_id;
          referralCode = signup.referral_code;
          await api.createTrigger({ ... }).catch(() => { }); // Non-blocking
      } catch {
          // Backend may be down - still save session with demo ID
      }
      setSession({ userId, displayName: name, referralCode });
      setLoading(false);
      window.location.href = "/dashboard";
  };
  \<close>
  When \<open>signup\<close> resolves to \<open>null\<close>, reading \<open>signup.user_id\<close> throws inside the
  \<open>try\<close> before anything is assigned, and the demo values stay. The rejection of
  \<open>createTrigger\<close> is swallowed by its own \<open>catch\<close>, so both of its outcomes continue
  alike. \<open>finish\<close> is the tail of the handler after the \<open>try\<close>.
\<close>

definition demo_userId :: "OnboardingEnv \<Rightarrow> json option" where
  "demo_userId env = Some (JStr (''demo_'' @ decimal (now env)))"

definition demo_referralCode :: "OnboardingEnv \<Rightarrow> OnboardingPage \<Rightarrow> json option" where
  "demo_referralCode env st =
     Some (JStr (''SCOR'' @ toUpperCase env (slice env (name st) 0 2) @ decimal (random99 env)))"

definition finish ::
  "json option \<Rightarrow> json option \<Rightarrow> api_call list \<Rightarrow> OnboardingPage \<Rightarrow> OnboardingPage" where
  "finish user referral made st =
     st\<lparr>loading := False,
        error := [],
        store := setSession \<lparr>userId = user, displayName = Some (JStr (name st)),
                              referralCode = referral\<rparr> (store st),
        location_href := ''/dashboard'',
        calls := calls st @ made\<rparr>"

definition handleComplete :: "OnboardingEnv \<Rightarrow> OnboardingPage \<Rightarrow> OnboardingPage" where
  "handleComplete env st =
     (case selectedTeam st of
        None \<Rightarrow> st
      | Some team \<Rightarrow>
          (case signup env (signup_data st team) of
             Inl e \<Rightarrow>
               finish (demo_userId env) (demo_referralCode env st)
                      [signup_call (signup_data st team)] st
           | Inr answer \<Rightarrow>
               (case get_prop answer ''user_id'' of
                  None \<Rightarrow>
                    finish (demo_userId env) (demo_referralCode env st)
                           [signup_call (signup_data st team)] st
                | Some user \<Rightarrow>
                    (case get_prop answer ''referral_code'' of
                       None \<Rightarrow>
                         finish user (demo_referralCode env st)
                                [signup_call (signup_data st team)] st
                     | Some referral \<Rightarrow>
                         (case createTrigger env (createTrigger_data st team user) of
                            Inl e \<Rightarrow>
                              finish user referral
                                [signup_call (signup_data st team),
                                 createTrigger_call (createTrigger_data st team user)] st
                          | Inr v \<Rightarrow>
                              finish user referral
                                [signup_call (signup_data st team),
                                 createTrigger_call (createTrigger_data st team user)] st)))))"

subsection \<open>The dashboard page\<close>

text \<open>
  The constant \<open>FALLBACK\<close> of the dashboard and the types of its members. Wallet fields
  carry the prefix \<open>w_\<close>, score fields \<open>ds_\<close>, history fields \<open>h_\<close>.
\<close>

record Wallet =
  w_virtual_balance_fcfa :: int
  w_confirmed_balance_fcfa :: int
  w_pending_settlement_fcfa :: int
  w_total_saved_fcfa :: int
  w_current_streak_days :: int

record DashScore =
  ds_trust_score :: int
  ds_tier_label :: string
  ds_max_loan_fcfa :: int

record HistoryItem =
  h_trigger_event :: string
  h_amount_fcfa :: int
  h_created_at :: string

record Fallback =
  wallet :: Wallet
  score :: DashScore
  fb_triggers :: "Trigger list"
  history :: "HistoryItem list"


subsection \<open>The credit page\<close>

text \<open>
  The score object of the credit page and its constants. Explanation fields carry the
  prefix \<open>ex_\<close>, score fields \<open>sc_\<close>, the fields of a row of \<open>TIERS\<close> the prefix \<open>tier_\<close>.
\<close>

record Explanation =
  ex_feature :: string
  ex_impact :: rat
  ex_direction :: string
  ex_description :: string

record Score =
  sc_trust_score :: int
  sc_tier :: string
  sc_tier_label :: string
  sc_max_loan_fcfa :: int
  sc_explanations :: "Explanation list"

definition FALLBACK_SCORE :: Score where
  "FALLBACK_SCORE =
     \<lparr>sc_trust_score = 562, sc_tier = ''MICRO'',
      sc_tier_label = ''Confirm'' @ [CHR 0xC3, CHR 0xA9], sc_max_loan_fcfa = 15000,
      sc_explanations =
        [\<lparr>ex_feature = ''savings_discipline'', ex_impact = 72 / 100, ex_direction = ''positive'',
           ex_description = ''Discipline d'' @ [CHR 0x27, CHR 0xC3, CHR 0xA9] @ ''pargne''\<rparr>,
         \<lparr>ex_feature = ''momo_activity'', ex_impact = 55 / 100, ex_direction = ''positive'',
           ex_description = ''Activit'' @ [CHR 0xC3, CHR 0xA9] @ '' MoMo''\<rparr>,
         \<lparr>ex_feature = ''telecom_stability'', ex_impact = 61 / 100, ex_direction = ''positive'',
           ex_description = ''Stabilit'' @ [CHR 0xC3, CHR 0xA9] @ '' T'' @ [CHR 0xC3, CHR 0xA9]
                              @ ''l'' @ [CHR 0xC3, CHR 0xA9] @ ''com''\<rparr>,
         \<lparr>ex_feature = ''behavioral_score'', ex_impact = 45 / 100, ex_direction = ''neutral'',
           ex_description = ''Comportement''\<rparr>]\<rparr>"

record TierRow =
  tier_name :: string
  tier_range :: string
  tier_max :: string

definition TIERS :: "TierRow list" where
  "TIERS =
     [\<lparr>tier_name = ''D'' @ [CHR 0xC3, CHR 0xA9] @ ''butant'',
        tier_range = ''0 '' @ [CHR 0xE2, CHR 0x80, CHR 0x93] @ '' 399'',
        tier_max = ''0 FCFA''\<rparr>,
      \<lparr>tier_name = ''Confirm'' @ [CHR 0xC3, CHR 0xA9],
        tier_range = ''400 '' @ [CHR 0xE2, CHR 0x80, CHR 0x93] @ '' 599'',
        tier_max = ''15 000 FCFA''\<rparr>,
      \<lparr>tier_name = ''Expert'',
        tier_range = ''600 '' @ [CHR 0xE2, CHR 0x80, CHR 0x93] @ '' 799'',
        tier_max = ''75 000 FCFA''\<rparr>,
      \<lparr>tier_name = [CHR 0xC3, CHR 0x89] @ ''lite'',
        tier_range = ''800 '' @ [CHR 0xE2, CHR 0x80, CHR 0x93] @ '' 1000'',
        tier_max = ''200 000 FCFA''\<rparr>]"

definition ICONS :: "(string \<times> string) list" where
  "ICONS =
     [(''savings_discipline'', [CHR 0xF0, CHR 0x9F, CHR 0x92, CHR 0xB0]),
      (''momo_activity'', [CHR 0xF0, CHR 0x9F, CHR 0x93, CHR 0xB1]),
      (''telecom_stability'', [CHR 0xF0, CHR 0x9F, CHR 0x93, CHR 0xB6]),
      (''behavioral_score'', [CHR 0xF0, CHR 0x9F, CHR 0x8E, CHR 0xAF])]"

text \<open>
  The result cell of the page: the object \<open>api.applyForLoan\<close> resolves to, at its declared
  type, or the object the demo mode builds. Fields carry the prefix \<open>lr_\<close>.
\<close>

record LoanResult =
  lr_approved :: bool
  lr_loan_id :: "string option"
  lr_amount_fcfa :: "int option"
  lr_total_due :: "int option"
  lr_interest_fcfa :: "int option"
  lr_reason :: "string option"
  lr_message :: "string option"

text \<open>The cells of \<open>CreditPage\<close>, and the user id of the session it reads.\<close>

record CreditPage =
  cp_userId :: "string option"
  cp_loading :: bool
  cp_score :: Score
  cp_amount :: int
  cp_applying :: bool
  cp_result :: "LoanResult option"

definition CreditPage_initial :: "string option \<Rightarrow> CreditPage" where
  "CreditPage_initial user =
     \<lparr>cp_userId = user, cp_loading = True, cp_score = FALLBACK_SCORE, cp_amount = 10000,
      cp_applying = False, cp_result = None\<rparr>"

text \<open>
  The effect that loads the score:
  \<^verbatim>\<open>
  if (session.userId) {
      try {
          const s = await api.getScore(session.userId);
          setScore(s as typeof score);
      } catch { /* fallback */ }
  }
  setLoading(false);
  \<close>
\<close>

definition load_score :: "(string \<Rightarrow> js_error + Score) \<Rightarrow> CreditPage \<Rightarrow> CreditPage" where
  "load_score getScore st =
     (if truthy_string (cp_userId st) then
        (case getScore (the (cp_userId st)) of
           Inr s \<Rightarrow> st\<lparr>cp_score := s, cp_loading := False\<rparr>
         | Inl e \<Rightarrow> st\<lparr>cp_loading := False\<rparr>)
      else st\<lparr>cp_loading := False\<rparr>)"

text \<open>
  \<open>Math.round\<close> rounds to the nearest integer, a half upwards. It is applied to the exact
  product here; the doubles of the source give the same integer for every whole amount
  from 0 to \<open>2^50\<close>, since \<open>amount * 0.10\<close> is computed to within a relative error of
  \<open>2^-52\<close> and the double \<open>0.10\<close> is not below one tenth.
\<close>

definition Math_round :: "rat \<Rightarrow> int" where
  "Math_round x = \<lfloor>x + 1 / 2\<rfloor>"

text \<open>
  \<^verbatim>\<open>
  const interestRate = 0.10;
  const interest = Math.round(amount * interestRate);
  const total = amount + interest;
  const activeTier = TIERS.find(t => t.name === score.tier_label) || TIERS[1];
  \<close>
\<close>

definition interestRate :: rat where
  "interestRate = 10 / 100"

definition interest :: "CreditPage \<Rightarrow> int" where
  "interest st = Math_round (of_int (cp_amount st) * interestRate)"

definition total :: "CreditPage \<Rightarrow> int" where
  "total st = cp_amount st + interest st"

definition activeTier :: "CreditPage \<Rightarrow> TierRow" where
  "activeTier st =
     (case find (\<lambda>t. tier_name t = sc_tier_label (cp_score st)) TIERS of
        Some t \<Rightarrow> t
      | None \<Rightarrow> TIERS ! 1)"

text \<open>
  The slider of the simulator,
  \<^verbatim>\<open><input type="range" min={1000} max={score.max_loan_fcfa} step={1000} value={amount}
         onChange={e => setAmount(Number(e.target.value))} />\<close>:
  a range input reports the minimum plus a whole number of steps, not above the maximum,
  and the minimum itself when the maximum is below it.
\<close>

definition slider_value :: "int \<Rightarrow> int \<Rightarrow> bool" where
  "slider_value mx v = (1000 \<le> v \<and> (v - 1000) mod 1000 = 0 \<and> (v \<le> mx \<or> v = 1000))"

definition setAmount :: "int \<Rightarrow> CreditPage \<Rightarrow> CreditPage" where
  "setAmount v st = st\<lparr>cp_amount := v\<rparr>"



text \<open>
  The list of explanations as the page renders it, one row for each element of
  \<open>score.explanations\<close>:
  \<^verbatim>\<open>
  {score.explanations.map((exp, i) => {
      const v = exp.impact;
      const color = v >= 0.7 ? "fill-emerald" : v >= 0.5 ? "fill-gold" : "fill-danger";
      ...
      <span>{ICONS[exp.feature] || <chart icon>} {exp.description}</span>
      <span>{Math.round(v * 100)}%</span>
  \<close>
  A row is modelled by its icon, its description and the impact \<open>v\<close> it is drawn from.
  The percentage, the width of the bar and the colour class are computed from \<open>v\<close> in
  double-precision arithmetic and are not modelled.
\<close>

record ExplanationRow =
  row_icon :: string
  row_description :: string
  row_impact :: rat

definition explanation_row :: "Explanation \<Rightarrow> ExplanationRow" where
  "explanation_row e =
     \<lparr>row_icon = (case map_of ICONS (ex_feature e) of
                    Some icon \<Rightarrow> icon
                  | None \<Rightarrow> [CHR 0xF0, CHR 0x9F, CHR 0x93, CHR 0x8A]),
      row_description = ex_description e,
      row_impact = ex_impact e\<rparr>"

definition explanation_rows :: "Score \<Rightarrow> ExplanationRow list" where
  "explanation_rows s = map explanation_row (sc_explanations s)"

text \<open>
  The order C7 words: the features listed by descending magnitude of impact.
\<close>

definition descending_impact :: "Explanation list \<Rightarrow> bool" where
  "descending_impact exps = sorted_wrt (\<lambda>a b. \<bar>ex_impact a\<bar> \<ge> \<bar>ex_impact b\<bar>) exps"

text \<open>
  Reading the display strings of \<open>TIERS\<close>: the number a string shows is the number its
  digits spell, blanks between groups of digits and the unit left aside; a range shows its
  two bounds on either side of the dash.
\<close>

definition digit_of :: "char \<Rightarrow> nat option" where
  "digit_of c =
     map_of [(CHR ''0'', 0), (CHR ''1'', 1), (CHR ''2'', 2), (CHR ''3'', 3), (CHR ''4'', 4),
             (CHR ''5'', 5), (CHR ''6'', 6), (CHR ''7'', 7), (CHR ''8'', 8), (CHR ''9'', 9)] c"

definition number_shown :: "string \<Rightarrow> nat" where
  "number_shown s = foldl (\<lambda>n c. case digit_of c of None \<Rightarrow> n | Some d \<Rightarrow> 10 * n + d) 0 s"

definition range_low :: "string \<Rightarrow> nat" where
  "range_low r = number_shown (takeWhile (\<lambda>c. c \<noteq> CHR 0xE2) r)"

definition range_high :: "string \<Rightarrow> nat" where
  "range_high r = number_shown (dropWhile (\<lambda>c. c \<noteq> CHR 0xE2) r)"

text \<open>The row of \<open>TIERS\<close> whose range holds a score.\<close>

definition tier_row_of_score :: "int \<Rightarrow> TierRow option" where
  "tier_row_of_score s =
     find (\<lambda>t. int (range_low (tier_range t)) \<le> s \<and> s \<le> int (range_high (tier_range t))) TIERS"

subsection \<open>The tier of a score (modelled from the specification)\<close>

text \<open>
  Modelled from the spec: the Trust Score Engine's tier lookup, which lives in the backend
  and is not in the repository. "Tier: one of Debutant, Confirme, Expert, Elite, a step
  function of score with fixed breakpoints (0-399, 400-599, 600-799, 800-1000) and a fixed
  max-loan ceiling per tier (0, 15 000, 75 000, 200 000 currency units)"; the score is an
  integer from 0 to 1000.
\<close>

datatype tier = Debutant | Confirme | Expert | Elite

definition tier_of_score :: "int \<Rightarrow> tier option" where
  "tier_of_score s =
     (if s < 0 \<or> 1000 < s then None
      else if s \<le> 399 then Some Debutant
      else if s \<le> 599 then Some Confirme
      else if s \<le> 799 then Some Expert
      else Some Elite)"

definition max_loan :: "tier \<Rightarrow> int" where
  "max_loan t = (case t of Debutant \<Rightarrow> 0 | Confirme \<Rightarrow> 15000 | Expert \<Rightarrow> 75000 | Elite \<Rightarrow> 200000)"

definition tier_label :: "tier \<Rightarrow> string" where
  "tier_label t =
     (case t of
        Debutant \<Rightarrow> ''D'' @ [CHR 0xC3, CHR 0xA9] @ ''butant''
      | Confirme \<Rightarrow> ''Confirm'' @ [CHR 0xC3, CHR 0xA9]
      | Expert \<Rightarrow> ''Expert''
      | Elite \<Rightarrow> [CHR 0xC3, CHR 0x89] @ ''lite'')"

subsection \<open>The event ingestor (modelled from the specification)\<close>

text \<open>
  Modelled from the spec: the Event Ingestor and the part of the Virtual Ledger it writes,
  which live in the backend and are not in the repository. A savings rule has an owner, a
  fixed amount, a lifecycle state and a trigger counter; a trigger event is the fact (rule
  id, external sporting-event id, occurrence timestamp), with the idempotency key (rule
  id, external sporting-event id); a ledger entry has a user, an amount, a kind, a state,
  a creation time and an optional settlement batch.
\<close>

datatype rule_state = ACTIVE | PAUSED | DELETED



datatype entry_kind = VIRTUAL_CREDIT | SETTLEMENT_DEBIT | REVERSAL

datatype entry_state = PENDING | CONFIRMED | FAILED

record LedgerEntry =
  le_user :: nat
  le_amount :: int
  le_kind :: entry_kind
  le_state :: entry_state
  le_created_at :: nat
  le_batch :: "nat option"






subsection \<open>Settlement batches and the balances (modelled from the specification)\<close>






text \<open>
  Modelled from the spec: the sums of section 3 ("the sum of all VIRTUAL_CREDIT entries",
  "the sum of CONFIRMED SETTLEMENT_DEBIT entries", "the sum of entries assigned to an open
  batch"), as the amounts of the entries of a ledger that satisfy a condition, summed. The
  credits are the entries of kind VIRTUAL_CREDIT and the REVERSAL entries, which section
  4.4 calls "a REVERSAL credit entry"; the total of a batch is the sum of the credits
  tagged into it.
\<close>

definition entry_total :: "(LedgerEntry \<Rightarrow> bool) \<Rightarrow> LedgerEntry list \<Rightarrow> int" where
  "entry_total p es = sum_list (map le_amount (filter p es))"

























section \<open>Properties\<close>

subsection \<open>Pausing and resuming a trigger\<close>

lemma togglePause_triggers_length:
  "length (triggers (togglePause t st)) = length (triggers st)"
  by (simp add: togglePause_def)

lemma togglePause_nth:
  assumes "i < length (triggers st)"
  shows "triggers (togglePause t st) ! i =
           (if t_id (triggers st ! i) = t_id t
            then (triggers st ! i)\<lparr>t_status :=
                   (if t_status (triggers st ! i) = ''ACTIVE'' then ''PAUSED'' else ''ACTIVE'')\<rparr>
            else triggers st ! i)"
  using assms by (simp add: togglePause_def)

lemma toggle_twice_row:
  fixes tr :: Trigger
  assumes "t_status tr = ''ACTIVE'' \<or> t_status tr = ''PAUSED''"
  shows "tr\<lparr>t_status := (if (if t_status tr = ''ACTIVE'' then ''PAUSED'' else ''ACTIVE'') = ''ACTIVE''
                           then ''PAUSED'' else ''ACTIVE'')\<rparr> = tr"
  using assms by auto

text \<open>
  C8 (as stated): for every trigger list and every trigger \<open>t\<close>, two applications of
  \<open>togglePause\<close> restore the list. This fails on a trigger whose status is neither
  \<open>ACTIVE\<close> nor \<open>PAUSED\<close>: the first application makes it \<open>ACTIVE\<close>, the second
  \<open>PAUSED\<close>. The status is a \<open>string\<close> that the backend supplies
  (\<open>api.getMyTriggers\<close>), and \<open>DELETED\<close> is one of its lifecycle states.
\<close>

theorem togglePause_involution_counterexample:
  "triggers
     (togglePause
        \<lparr>t_id = ''r1'', t_team_name = ''PSG'', t_event_type = ''WIN'', t_amount_fcfa = 1000,
          t_times_triggered = 0, t_total_saved_fcfa = 0, t_status = ''DELETED''\<rparr>
        (togglePause
           \<lparr>t_id = ''r1'', t_team_name = ''PSG'', t_event_type = ''WIN'', t_amount_fcfa = 1000,
             t_times_triggered = 0, t_total_saved_fcfa = 0, t_status = ''DELETED''\<rparr>
           \<lparr>triggers =
              [\<lparr>t_id = ''r1'', t_team_name = ''PSG'', t_event_type = ''WIN'', t_amount_fcfa = 1000,
                 t_times_triggered = 0, t_total_saved_fcfa = 0, t_status = ''DELETED''\<rparr>],
            tp_userId = None, tp_pause_requests = []\<rparr>))
   = [\<lparr>t_id = ''r1'', t_team_name = ''PSG'', t_event_type = ''WIN'', t_amount_fcfa = 1000,
        t_times_triggered = 0, t_total_saved_fcfa = 0, t_status = ''PAUSED''\<rparr>]
   \<and> triggers
     (togglePause
        \<lparr>t_id = ''r1'', t_team_name = ''PSG'', t_event_type = ''WIN'', t_amount_fcfa = 1000,
          t_times_triggered = 0, t_total_saved_fcfa = 0, t_status = ''DELETED''\<rparr>
        (togglePause
           \<lparr>t_id = ''r1'', t_team_name = ''PSG'', t_event_type = ''WIN'', t_amount_fcfa = 1000,
             t_times_triggered = 0, t_total_saved_fcfa = 0, t_status = ''DELETED''\<rparr>
           \<lparr>triggers =
              [\<lparr>t_id = ''r1'', t_team_name = ''PSG'', t_event_type = ''WIN'', t_amount_fcfa = 1000,
                 t_times_triggered = 0, t_total_saved_fcfa = 0, t_status = ''DELETED''\<rparr>],
            tp_userId = None, tp_pause_requests = []\<rparr>))
   \<noteq> [\<lparr>t_id = ''r1'', t_team_name = ''PSG'', t_event_type = ''WIN'', t_amount_fcfa = 1000,
        t_times_triggered = 0, t_total_saved_fcfa = 0, t_status = ''DELETED''\<rparr>]"
  by (simp add: togglePause_def)

text \<open>
  C8 (amended): a single application of \<open>togglePause t\<close> keeps the length and the order
  of the list, leaves every trigger whose id differs from \<open>t.id\<close> as it is, and in every
  trigger whose id equals \<open>t.id\<close> changes the status field only, \<open>ACTIVE\<close> to \<open>PAUSED\<close>
  and any other status to \<open>ACTIVE\<close>. Two applications restore the list when every trigger
  with that id has the status \<open>ACTIVE\<close> or \<open>PAUSED\<close>.
\<close>

theorem togglePause_spec:
  "length (triggers (togglePause t st)) = length (triggers st)
   \<and> (\<forall>i < length (triggers st).
         (t_id (triggers st ! i) \<noteq> t_id t \<longrightarrow>
            triggers (togglePause t st) ! i = triggers st ! i)
       \<and> (t_id (triggers st ! i) = t_id t \<longrightarrow>
            triggers (togglePause t st) ! i =
              (triggers st ! i)\<lparr>t_status :=
                 (if t_status (triggers st ! i) = ''ACTIVE'' then ''PAUSED'' else ''ACTIVE'')\<rparr>))
   \<and> ((\<forall>tr \<in> set (triggers st).
          t_id tr = t_id t \<longrightarrow> t_status tr = ''ACTIVE'' \<or> t_status tr = ''PAUSED'')
        \<longrightarrow> triggers (togglePause t (togglePause t st)) = triggers st)"
proof (intro conjI allI impI)
  show "length (triggers (togglePause t st)) = length (triggers st)"
    by (rule togglePause_triggers_length)
next
  fix i assume "i < length (triggers st)" "t_id (triggers st ! i) \<noteq> t_id t"
  then show "triggers (togglePause t st) ! i = triggers st ! i"
    by (simp add: togglePause_nth)
next
  fix i assume "i < length (triggers st)" "t_id (triggers st ! i) = t_id t"
  then show "triggers (togglePause t st) ! i =
      (triggers st ! i)\<lparr>t_status :=
         (if t_status (triggers st ! i) = ''ACTIVE'' then ''PAUSED'' else ''ACTIVE'')\<rparr>"
    by (simp add: togglePause_nth)
next
  assume ok: "\<forall>tr \<in> set (triggers st).
      t_id tr = t_id t \<longrightarrow> t_status tr = ''ACTIVE'' \<or> t_status tr = ''PAUSED''"
  have "map (\<lambda>tr. if t_id tr = t_id t
                 then tr\<lparr>t_status := (if t_status tr = ''ACTIVE'' then ''PAUSED'' else ''ACTIVE'')\<rparr>
                 else tr)
          (map (\<lambda>tr. if t_id tr = t_id t
                 then tr\<lparr>t_status := (if t_status tr = ''ACTIVE'' then ''PAUSED'' else ''ACTIVE'')\<rparr>
                 else tr) xs) = xs"
    if "set xs \<subseteq> set (triggers st)" for xs
    using that
  proof (induction xs)
    case Nil
    then show ?case by simp
  next
    case (Cons x xs)
    then have "t_id x = t_id t \<Longrightarrow> t_status x = ''ACTIVE'' \<or> t_status x = ''PAUSED''"
      using ok by auto
    with Cons show ?case
      by (auto simp: toggle_twice_row)
  qed
  then show "triggers (togglePause t (togglePause t st)) = triggers st"
    by (simp add: togglePause_def)
qed

theorem togglePause_spec_witness:
  "length (triggers (togglePause (DEMO_TRIGGERS ! 0)
       \<lparr>triggers = DEMO_TRIGGERS, tp_userId = Some ''u1'', tp_pause_requests = []\<rparr>)) = 2
   \<and> map t_status (triggers (togglePause (DEMO_TRIGGERS ! 0)
       \<lparr>triggers = DEMO_TRIGGERS, tp_userId = Some ''u1'', tp_pause_requests = []\<rparr>))
     = [''PAUSED'', ''ACTIVE'']
   \<and> triggers (togglePause (DEMO_TRIGGERS ! 0) (togglePause (DEMO_TRIGGERS ! 0)
       \<lparr>triggers = DEMO_TRIGGERS, tp_userId = Some ''u1'', tp_pause_requests = []\<rparr>))
     = DEMO_TRIGGERS"
  using togglePause_spec [of "DEMO_TRIGGERS ! 0"
      "\<lparr>triggers = DEMO_TRIGGERS, tp_userId = Some ''u1'', tp_pause_requests = []\<rparr>"]
  by (simp add: togglePause_def DEMO_TRIGGERS_def)

subsection \<open>The request helper\<close>

lemma get_prop_member: "v \<noteq> JNull \<Longrightarrow> get_prop v k = Some (member v k)"
  by (cases v) (simp_all add: get_prop_def member_def)

lemma error_of_body_member:
  assumes "err \<noteq> JNull"
  shows "error_of_body status err =
           Error (if truthy (member err ''detail'') then the (member err ''detail'')
                  else if truthy (member err ''message'') then the (member err ''message'')
                  else JStr (''Erreur '' @ decimal status))"
  using assms by (simp add: error_of_body_def get_prop_member)

lemma error_of_body_invalid_json:
  "error_of_body status (JObj [(''message'', JStr ''Erreur serveur'')])
     = Error (JStr ''Erreur serveur'')"
  by (simp add: error_of_body_def get_prop_def truthy_def)

text \<open>
  C9 (as stated): on a response that is not ok the message of the error is the \<open>detail\<close>
  member of the body if present, else its \<open>message\<close> member, else \<open>Erreur\<close> and the
  status. The code chooses with \<open>||\<close>, by truthiness: a \<open>detail\<close> that is present but
  empty (or \<open>null\<close>, \<open>false\<close>, \<open>0\<close>) is passed over; and for the body \<open>null\<close> the
  read of \<open>err.detail\<close> itself throws a \<open>TypeError\<close>.
\<close>

theorem request_error_message_counterexample:
  "request
     \<lparr>NEXT_PUBLIC_API_URL = None,
      fetch = (\<lambda>url init. Resolved \<lparr>res_ok = False, res_status = 404,
                 res_json = Some (JObj [(''detail'', JStr []), (''message'', JStr ''Not found'')])\<rparr>)\<rparr>
     ''/score/u1'' None
   = Inl (Error (JStr ''Not found''))
   \<and> claimed_error 404 (Some (JObj [(''detail'', JStr []), (''message'', JStr ''Not found'')]))
     = Error (JStr [])
   \<and> request
     \<lparr>NEXT_PUBLIC_API_URL = None,
      fetch = (\<lambda>url init. Resolved \<lparr>res_ok = False, res_status = 500, res_json = Some JNull\<rparr>)\<rparr>
     ''/score/u1'' None
   = Inl TypeError
   \<and> claimed_error 500 (Some JNull) = Error (JStr ''Erreur 500'')"
  by (simp add: request_def error_of_body_def claimed_error_def get_prop_def member_def
      truthy_def decimal.simps digit_char_def)

text \<open>
  C9 (amended): \<open>request\<close> returns a value exactly when \<open>fetch\<close> resolves with a
  response that is ok and whose body parses, and the value is the parsed body; in every
  other case it throws and returns nothing. On a response that is not ok the error carries
  \<open>Erreur serveur\<close> when the body is not JSON; otherwise, for every body but \<open>null\<close>,
  it carries the \<open>detail\<close> member if that is truthy, else the \<open>message\<close> member if that
  is truthy, else \<open>Erreur\<close> followed by the status.
\<close>

theorem request_outcome:
  "(\<forall>v. request env path options = Inr v \<longleftrightarrow>
         (\<exists>res. fetch env (API_BASE (NEXT_PUBLIC_API_URL env) @ path) (fetch_init options) = Resolved res
                \<and> res_ok res \<and> res_json res = Some v))
   \<and> (\<forall>res. fetch env (API_BASE (NEXT_PUBLIC_API_URL env) @ path) (fetch_init options) = Resolved res
             \<and> \<not> res_ok res \<longrightarrow>
          (\<exists>e. request env path options = Inl e)
        \<and> (res_json res = None \<longrightarrow>
             request env path options = Inl (Error (JStr ''Erreur serveur'')))
        \<and> (\<forall>body. res_json res = Some body \<and> body \<noteq> JNull \<longrightarrow>
             request env path options =
               Inl (Error (if truthy (member body ''detail'') then the (member body ''detail'')
                           else if truthy (member body ''message'') then the (member body ''message'')
                           else JStr (''Erreur '' @ decimal (res_status res))))))"
proof (intro conjI allI impI)
  fix v
  show "request env path options = Inr v \<longleftrightarrow>
         (\<exists>res. fetch env (API_BASE (NEXT_PUBLIC_API_URL env) @ path) (fetch_init options) = Resolved res
                \<and> res_ok res \<and> res_json res = Some v)"
    by (auto simp: request_def split: fetch_outcome.splits option.splits)
next
  fix res
  assume "fetch env (API_BASE (NEXT_PUBLIC_API_URL env) @ path) (fetch_init options) = Resolved res
             \<and> \<not> res_ok res"
  then show "\<exists>e. request env path options = Inl e"
    by (simp add: request_def)
next
  fix res
  assume "fetch env (API_BASE (NEXT_PUBLIC_API_URL env) @ path) (fetch_init options) = Resolved res
             \<and> \<not> res_ok res" "res_json res = None"
  then show "request env path options = Inl (Error (JStr ''Erreur serveur''))"
    by (simp add: request_def error_of_body_invalid_json)
next
  fix res body
  assume "fetch env (API_BASE (NEXT_PUBLIC_API_URL env) @ path) (fetch_init options) = Resolved res
             \<and> \<not> res_ok res" "res_json res = Some body \<and> body \<noteq> JNull"
  then show "request env path options =
      Inl (Error (if truthy (member body ''detail'') then the (member body ''detail'')
                  else if truthy (member body ''message'') then the (member body ''message'')
                  else JStr (''Erreur '' @ decimal (res_status res))))"
    by (simp add: request_def error_of_body_member)
qed

theorem request_outcome_witness:
  "request
     \<lparr>NEXT_PUBLIC_API_URL = None,
      fetch = (\<lambda>url init. Resolved \<lparr>res_ok = False, res_status = 422,
                 res_json = Some (JObj [(''detail'', JStr ''Invalid phone'')])\<rparr>)\<rparr>
     ''/auth/signup'' None
   = Inl (Error (JStr ''Invalid phone''))
   \<and> request
     \<lparr>NEXT_PUBLIC_API_URL = None,
      fetch = (\<lambda>url init. Resolved \<lparr>res_ok = False, res_status = 503, res_json = None\<rparr>)\<rparr>
     ''/auth/signup'' None
   = Inl (Error (JStr ''Erreur serveur''))
   \<and> request
     \<lparr>NEXT_PUBLIC_API_URL = None,
      fetch = (\<lambda>url init. Resolved \<lparr>res_ok = False, res_status = 503, res_json = Some (JObj [])\<rparr>)\<rparr>
     ''/auth/signup'' None
   = Inl (Error (JStr ''Erreur 503''))
   \<and> request
     \<lparr>NEXT_PUBLIC_API_URL = None,
      fetch = (\<lambda>url init. Resolved \<lparr>res_ok = True, res_status = 200,
                 res_json = Some (JObj [(''user_id'', JStr ''u1'')])\<rparr>)\<rparr>
     ''/auth/signup'' None
   = Inr (JObj [(''user_id'', JStr ''u1'')])"
  using
    request_outcome [of
     "\<lparr>NEXT_PUBLIC_API_URL = None,
      fetch = (\<lambda>url init. Resolved \<lparr>res_ok = False, res_status = 422,
                 res_json = Some (JObj [(''detail'', JStr ''Invalid phone'')])\<rparr>)\<rparr>"
     "''/auth/signup''" None]
    request_outcome [of
     "\<lparr>NEXT_PUBLIC_API_URL = None,
      fetch = (\<lambda>url init. Resolved \<lparr>res_ok = False, res_status = 503, res_json = None\<rparr>)\<rparr>"
     "''/auth/signup''" None]
    request_outcome [of
     "\<lparr>NEXT_PUBLIC_API_URL = None,
      fetch = (\<lambda>url init. Resolved \<lparr>res_ok = False, res_status = 503, res_json = Some (JObj [])\<rparr>)\<rparr>"
     "''/auth/signup''" None]
    request_outcome [of
     "\<lparr>NEXT_PUBLIC_API_URL = None,
      fetch = (\<lambda>url init. Resolved \<lparr>res_ok = True, res_status = 200,
                 res_json = Some (JObj [(''user_id'', JStr ''u1'')])\<rparr>)\<rparr>"
     "''/auth/signup''" None]
  by (simp add: member_def truthy_def decimal.simps digit_char_def)

subsection \<open>The balance query\<close>

text \<open>
  C6 (as stated): the balance query is a \<open>POST\<close> to \<open>/wallet\<close> whose result has the
  members \<open>virtual_balance\<close>, \<open>confirmed_balance\<close>, \<open>pending_settlement\<close>, \<open>total_saved\<close>,
  \<open>current_streak_days\<close>, \<open>longest_streak_days\<close>. \<open>getBalance\<close> names no method, asks
  for another path, and declares other member names; a server that answers \<open>POST /wallet\<close>
  alone is not reached by it.
\<close>

theorem getBalance_contract_counterexample:
  "http_method (fetch_init (call_options (getBalance_call ''u1''))) \<noteq> ''POST''
   \<and> call_path (getBalance_call ''u1'') \<noteq> ''/wallet''
   \<and> set getBalance_fields \<noteq>
       set [''virtual_balance'', ''confirmed_balance'', ''pending_settlement'', ''total_saved'',
            ''current_streak_days'', ''longest_streak_days'']
   \<and> getBalance
        \<lparr>NEXT_PUBLIC_API_URL = None,
         fetch = (\<lambda>url init.
            if url = ''http://localhost:8000/api/v1/wallet'' \<and> http_method init = ''POST''
            then Resolved \<lparr>res_ok = True, res_status = 200,
                   res_json = Some (JObj [(''virtual_balance'', JNum 47500)])\<rparr>
            else Resolved \<lparr>res_ok = False, res_status = 404,
                   res_json = Some (JObj [(''detail'', JStr ''Not Found'')])\<rparr>)\<rparr>
        ''u1''
     = Inl (Error (JStr ''Not Found''))"
proof -
  have "''user_id'' \<in> set getBalance_fields"
    by (simp add: getBalance_fields_def)
  moreover have "''user_id'' \<notin> set [''virtual_balance'', ''confirmed_balance'',
      ''pending_settlement'', ''total_saved'', ''current_streak_days'', ''longest_streak_days'']"
    by simp
  ultimately have "set getBalance_fields \<noteq>
       set [''virtual_balance'', ''confirmed_balance'', ''pending_settlement'', ''total_saved'',
            ''current_streak_days'', ''longest_streak_days'']"
    by metis
  then show ?thesis
    by (simp add: getBalance_call_def getBalance_def run_call_def request_def fetch_init_def
        http_method_def API_BASE_def truthy_string_def error_of_body_def get_prop_def truthy_def)
qed

text \<open>
  C6 (amended): \<open>getBalance(userId)\<close> requests the path \<open>/wallet/balance/{userId}\<close> with no
  method and no body, which \<open>fetch\<close> sends as a \<open>GET\<close>; the type it declares for the
  result has the members \<open>user_id\<close>, \<open>virtual_balance_fcfa\<close>, \<open>confirmed_balance_fcfa\<close>,
  \<open>pending_settlement_fcfa\<close>, \<open>total_saved_fcfa\<close>, \<open>current_streak_days\<close>,
  \<open>longest_streak_days\<close>; and it returns the body of an ok answer to that request.
\<close>

theorem getBalance_contract:
  "call_path (getBalance_call uid) = ''/wallet/balance/'' @ uid
   \<and> fetch_init (call_options (getBalance_call uid))
       = \<lparr>init_method = None, init_body = None,
          init_headers = Some [(''Content-Type'', ''application/json'')]\<rparr>
   \<and> http_method (fetch_init (call_options (getBalance_call uid))) = ''GET''
   \<and> getBalance_fields =
       [''user_id'', ''virtual_balance_fcfa'', ''confirmed_balance_fcfa'',
        ''pending_settlement_fcfa'', ''total_saved_fcfa'', ''current_streak_days'',
        ''longest_streak_days'']
   \<and> (\<forall>v. fetch env (API_BASE (NEXT_PUBLIC_API_URL env) @ ''/wallet/balance/'' @ uid)
              \<lparr>init_method = None, init_body = None,
               init_headers = Some [(''Content-Type'', ''application/json'')]\<rparr>
            = Resolved \<lparr>res_ok = True, res_status = 200, res_json = Some v\<rparr>
          \<longrightarrow> getBalance env uid = Inr v)"
  by (simp add: getBalance_call_def getBalance_def run_call_def request_def fetch_init_def
      http_method_def getBalance_fields_def)

theorem getBalance_contract_witness:
  "getBalance
     \<lparr>NEXT_PUBLIC_API_URL = None,
      fetch = (\<lambda>url init.
         if url = ''http://localhost:8000/api/v1/wallet/balance/u1'' \<and> http_method init = ''GET''
         then Resolved \<lparr>res_ok = True, res_status = 200,
                res_json = Some (JObj [(''virtual_balance_fcfa'', JNum 47500)])\<rparr>
         else Resolved \<lparr>res_ok = False, res_status = 404,
                res_json = Some (JObj [(''detail'', JStr ''Not Found'')])\<rparr>)\<rparr>
     ''u1''
   = Inr (JObj [(''virtual_balance_fcfa'', JNum 47500)])"
  using getBalance_contract [of "''u1''"
     "\<lparr>NEXT_PUBLIC_API_URL = None,
      fetch = (\<lambda>url init.
         if url = ''http://localhost:8000/api/v1/wallet/balance/u1'' \<and> http_method init = ''GET''
         then Resolved \<lparr>res_ok = True, res_status = 200,
                res_json = Some (JObj [(''virtual_balance_fcfa'', JNum 47500)])\<rparr>
         else Resolved \<lparr>res_ok = False, res_status = 404,
                res_json = Some (JObj [(''detail'', JStr ''Not Found'')])\<rparr>)\<rparr>"]
  by (simp add: API_BASE_def truthy_string_def http_method_def)

subsection \<open>Completing the onboarding\<close>

lemma finish_reads:
  "session (store (finish user referral made st)) =
     \<lparr>userId = user, displayName = Some (JStr (name st)), referralCode = referral\<rparr>"
  "localStorage (store (finish user referral made st)) SESSION_KEY =
     Some \<lparr>userId = user, displayName = Some (JStr (name st)), referralCode = referral\<rparr>"
  "location_href (finish user referral made st) = ''/dashboard''"
  "loading (finish user referral made st) = False"
  by (simp_all add: finish_def setSession_def)

lemma handleComplete_no_team:
  "selectedTeam st = None \<Longrightarrow> handleComplete env st = st"
  by (simp add: handleComplete_def)

lemma handleComplete_signup_throws:
  assumes "selectedTeam st = Some team" "signup env (signup_data st team) = Inl e"
  shows "handleComplete env st =
           finish (demo_userId env) (demo_referralCode env st)
                  [signup_call (signup_data st team)] st"
  using assms unfolding handleComplete_def by simp

lemma handleComplete_signup_null:
  assumes "selectedTeam st = Some team" "signup env (signup_data st team) = Inr JNull"
  shows "handleComplete env st =
           finish (demo_userId env) (demo_referralCode env st)
                  [signup_call (signup_data st team)] st"
  using assms unfolding handleComplete_def by (simp add: get_prop_def)

lemma handleComplete_signup_returns:
  assumes "selectedTeam st = Some team" "signup env (signup_data st team) = Inr v" "v \<noteq> JNull"
  shows "handleComplete env st =
           finish (member v ''user_id'') (member v ''referral_code'')
             [signup_call (signup_data st team),
              createTrigger_call (createTrigger_data st team (member v ''user_id''))] st"
  using assms unfolding handleComplete_def
  by (simp add: get_prop_member split: sum.split)

lemma handleComplete_finishes:
  assumes "selectedTeam st \<noteq> None"
  shows "\<exists>user referral made. handleComplete env st = finish user referral made st"
proof -
  from assms obtain team where team: "selectedTeam st = Some team"
    by auto
  show ?thesis
  proof (cases "signup env (signup_data st team)")
    case (Inl e)
    with team show ?thesis
      using handleComplete_signup_throws by blast
  next
    case (Inr v)
    show ?thesis
    proof (cases "v = JNull")
      case True
      with team Inr show ?thesis
        using handleComplete_signup_null by blast
    next
      case False
      with team Inr show ?thesis
        using handleComplete_signup_returns by blast
    qed
  qed
qed

text \<open>
  C10 (as stated): with a team selected, \<open>handleComplete\<close> always stores a session whose
  \<open>userId\<close> is not null. The id is read off the answer of \<open>api.signup\<close> as it comes:
  when the backend answers with a body that has no \<open>user_id\<close>, the stored \<open>userId\<close> is
  \<open>undefined\<close>, and when the body has \<open>user_id: null\<close> it is \<open>null\<close>.
\<close>

theorem handleComplete_counterexample:
  "userId (session (store (handleComplete
     \<lparr>now = 1700000000000, random99 = 42,
      slice = (\<lambda>s i j. take (j - i) (drop i s)),
      toUpperCase = (\<lambda>s. if s = ''Je'' then ''JE'' else s),
      signup = (\<lambda>d. Inr (JObj [(''message'', JStr ''created'')])),
      createTrigger = (\<lambda>d. Inr (JObj []))\<rparr>
     \<lparr>step = 3, name = ''Jean'', phone = ''677000111'',
      selectedTeam = Some \<lparr>team_id = 42, team_name = ''Arsenal'',
                           team_league = ''Premier League'', team_logo = ''R''\<rparr>,
      selectedEvent = ''WIN'', amount = 1000, loading = False, error = [],
      store = \<lparr>session = \<lparr>userId = Some JNull, displayName = Some JNull,
                            referralCode = Some JNull\<rparr>,
                localStorage = Map.empty\<rparr>,
      location_href = ''/onboarding'', calls = []\<rparr>)))
   = None
   \<and> userId (session (store (handleComplete
     \<lparr>now = 1700000000000, random99 = 42,
      slice = (\<lambda>s i j. take (j - i) (drop i s)),
      toUpperCase = (\<lambda>s. if s = ''Je'' then ''JE'' else s),
      signup = (\<lambda>d. Inr (JObj [(''user_id'', JNull), (''referral_code'', JStr ''SCORAB12'')])),
      createTrigger = (\<lambda>d. Inr (JObj []))\<rparr>
     \<lparr>step = 3, name = ''Jean'', phone = ''677000111'',
      selectedTeam = Some \<lparr>team_id = 42, team_name = ''Arsenal'',
                           team_league = ''Premier League'', team_logo = ''R''\<rparr>,
      selectedEvent = ''WIN'', amount = 1000, loading = False, error = [],
      store = \<lparr>session = \<lparr>userId = Some JNull, displayName = Some JNull,
                            referralCode = Some JNull\<rparr>,
                localStorage = Map.empty\<rparr>,
      location_href = ''/onboarding'', calls = []\<rparr>)))
   = Some JNull"
  by (simp add: handleComplete_def get_prop_def finish_reads)

text \<open>
  C10 (amended): with no team selected, \<open>handleComplete\<close> returns at once and changes
  nothing. With a team selected it always stores a session, in the state cell and in
  \<open>localStorage\<close>, with the name as \<open>displayName\<close>, and sends the browser to
  \<open>/dashboard\<close>, whatever the two backend calls do. When \<open>signup\<close> throws, or resolves to
  \<open>null\<close>, the session carries the demo user id and the demo referral code; when it
  resolves to any other body, the session carries whatever that body has as \<open>user_id\<close> and
  \<open>referral_code\<close>, whether \<open>createTrigger\<close> then throws or not.
\<close>

theorem handleComplete_spec:
  "(selectedTeam st = None \<longrightarrow> handleComplete env st = st)
   \<and> (selectedTeam st \<noteq> None \<longrightarrow>
         displayName (session (store (handleComplete env st))) = Some (JStr (name st))
       \<and> localStorage (store (handleComplete env st)) SESSION_KEY
           = Some (session (store (handleComplete env st)))
       \<and> location_href (handleComplete env st) = ''/dashboard''
       \<and> loading (handleComplete env st) = False)
   \<and> (\<forall>team. selectedTeam st = Some team
          \<and> ((\<exists>e. signup env (signup_data st team) = Inl e)
              \<or> signup env (signup_data st team) = Inr JNull) \<longrightarrow>
         session (store (handleComplete env st))
           = \<lparr>userId = Some (JStr (''demo_'' @ decimal (now env))),
              displayName = Some (JStr (name st)),
              referralCode =
                Some (JStr (''SCOR'' @ toUpperCase env (slice env (name st) 0 2)
                            @ decimal (random99 env)))\<rparr>)
   \<and> (\<forall>team v. selectedTeam st = Some team \<and> signup env (signup_data st team) = Inr v
          \<and> v \<noteq> JNull \<longrightarrow>
         session (store (handleComplete env st))
           = \<lparr>userId = member v ''user_id'', displayName = Some (JStr (name st)),
              referralCode = member v ''referral_code''\<rparr>)"
proof -
  have a: "selectedTeam st = None \<longrightarrow> handleComplete env st = st"
    by (simp add: handleComplete_no_team)
  have b: "displayName (session (store (handleComplete env st))) = Some (JStr (name st))
       \<and> localStorage (store (handleComplete env st)) SESSION_KEY
           = Some (session (store (handleComplete env st)))
       \<and> location_href (handleComplete env st) = ''/dashboard''
       \<and> loading (handleComplete env st) = False"
    if "selectedTeam st \<noteq> None"
  proof -
    from that obtain user referral made
      where fin: "handleComplete env st = finish user referral made st"
      using handleComplete_finishes by blast
    show ?thesis
      unfolding fin by (simp add: finish_reads)
  qed
  have c: "session (store (handleComplete env st))
           = \<lparr>userId = Some (JStr (''demo_'' @ decimal (now env))),
              displayName = Some (JStr (name st)),
              referralCode =
                Some (JStr (''SCOR'' @ toUpperCase env (slice env (name st) 0 2)
                            @ decimal (random99 env)))\<rparr>"
    if "selectedTeam st = Some team
          \<and> ((\<exists>e. signup env (signup_data st team) = Inl e)
              \<or> signup env (signup_data st team) = Inr JNull)" for team
  proof -
    from that have "handleComplete env st =
           finish (demo_userId env) (demo_referralCode env st)
                  [signup_call (signup_data st team)] st"
      using handleComplete_signup_throws handleComplete_signup_null by blast
    then show ?thesis
      by (simp add: finish_reads demo_userId_def demo_referralCode_def)
  qed
  have d: "session (store (handleComplete env st))
           = \<lparr>userId = member v ''user_id'', displayName = Some (JStr (name st)),
              referralCode = member v ''referral_code''\<rparr>"
    if "selectedTeam st = Some team \<and> signup env (signup_data st team) = Inr v \<and> v \<noteq> JNull"
    for team v
    using that by (simp add: handleComplete_signup_returns finish_reads)
  from a b c d show ?thesis
    by blast
qed


theorem handleComplete_spec_witness:
  "handleComplete
     \<lparr>now = 1700000000000, random99 = 42,
      slice = (\<lambda>s i j. take (j - i) (drop i s)),
      toUpperCase = (\<lambda>s. if s = ''Je'' then ''JE'' else s),
      signup = (\<lambda>d. Inl TypeError), createTrigger = (\<lambda>d. Inl TypeError)\<rparr>
     \<lparr>step = 3, name = ''Jean'', phone = ''677000111'', selectedTeam = None,
      selectedEvent = ''WIN'', amount = 1000, loading = False, error = [],
      store = \<lparr>session = \<lparr>userId = Some JNull, displayName = Some JNull,
                            referralCode = Some JNull\<rparr>,
                localStorage = Map.empty\<rparr>,
      location_href = ''/onboarding'', calls = []\<rparr>
   = \<lparr>step = 3, name = ''Jean'', phone = ''677000111'', selectedTeam = None,
      selectedEvent = ''WIN'', amount = 1000, loading = False, error = [],
      store = \<lparr>session = \<lparr>userId = Some JNull, displayName = Some JNull,
                            referralCode = Some JNull\<rparr>,
                localStorage = Map.empty\<rparr>,
      location_href = ''/onboarding'', calls = []\<rparr>
   \<and> session (store (handleComplete
     \<lparr>now = 1700000000000, random99 = 42,
      slice = (\<lambda>s i j. take (j - i) (drop i s)),
      toUpperCase = (\<lambda>s. if s = ''Je'' then ''JE'' else s),
      signup = (\<lambda>d. Inl TypeError), createTrigger = (\<lambda>d. Inl TypeError)\<rparr>
     \<lparr>step = 3, name = ''Jean'', phone = ''677000111'',
      selectedTeam = Some \<lparr>team_id = 42, team_name = ''Arsenal'',
                           team_league = ''Premier League'', team_logo = ''R''\<rparr>,
      selectedEvent = ''WIN'', amount = 1000, loading = False, error = [],
      store = \<lparr>session = \<lparr>userId = Some JNull, displayName = Some JNull,
                            referralCode = Some JNull\<rparr>,
                localStorage = Map.empty\<rparr>,
      location_href = ''/onboarding'', calls = []\<rparr>))
   = \<lparr>userId = Some (JStr ''demo_1700000000000''), displayName = Some (JStr ''Jean''),
      referralCode = Some (JStr ''SCORJE42'')\<rparr>
   \<and> location_href (handleComplete
     \<lparr>now = 1700000000000, random99 = 42,
      slice = (\<lambda>s i j. take (j - i) (drop i s)),
      toUpperCase = (\<lambda>s. if s = ''Je'' then ''JE'' else s),
      signup = (\<lambda>d. Inl TypeError), createTrigger = (\<lambda>d. Inl TypeError)\<rparr>
     \<lparr>step = 3, name = ''Jean'', phone = ''677000111'',
      selectedTeam = Some \<lparr>team_id = 42, team_name = ''Arsenal'',
                           team_league = ''Premier League'', team_logo = ''R''\<rparr>,
      selectedEvent = ''WIN'', amount = 1000, loading = False, error = [],
      store = \<lparr>session = \<lparr>userId = Some JNull, displayName = Some JNull,
                            referralCode = Some JNull\<rparr>,
                localStorage = Map.empty\<rparr>,
      location_href = ''/onboarding'', calls = []\<rparr>)
   = ''/dashboard''
   \<and> session (store (handleComplete
     \<lparr>now = 1700000000000, random99 = 42,
      slice = (\<lambda>s i j. take (j - i) (drop i s)),
      toUpperCase = (\<lambda>s. if s = ''Je'' then ''JE'' else s),
      signup = (\<lambda>d. Inr (JObj [(''user_id'', JStr ''u_77''),
                                  (''referral_code'', JStr ''SCORAB12''),
                                  (''message'', JStr ''ok'')])),
      createTrigger = (\<lambda>d. Inl TypeError)\<rparr>
     \<lparr>step = 3, name = ''Jean'', phone = ''677000111'',
      selectedTeam = Some \<lparr>team_id = 42, team_name = ''Arsenal'',
                           team_league = ''Premier League'', team_logo = ''R''\<rparr>,
      selectedEvent = ''WIN'', amount = 1000, loading = False, error = [],
      store = \<lparr>session = \<lparr>userId = Some JNull, displayName = Some JNull,
                            referralCode = Some JNull\<rparr>,
                localStorage = Map.empty\<rparr>,
      location_href = ''/onboarding'', calls = []\<rparr>))
   = \<lparr>userId = Some (JStr ''u_77''), displayName = Some (JStr ''Jean''),
      referralCode = Some (JStr ''SCORAB12'')\<rparr>"
  using
    handleComplete_spec [of
      "\<lparr>step = 3, name = ''Jean'', phone = ''677000111'', selectedTeam = None,
        selectedEvent = ''WIN'', amount = 1000, loading = False, error = [],
        store = \<lparr>session = \<lparr>userId = Some JNull, displayName = Some JNull,
                              referralCode = Some JNull\<rparr>,
                  localStorage = Map.empty\<rparr>,
        location_href = ''/onboarding'', calls = []\<rparr>"
      "\<lparr>now = 1700000000000, random99 = 42,
        slice = (\<lambda>s i j. take (j - i) (drop i s)),
        toUpperCase = (\<lambda>s. if s = ''Je'' then ''JE'' else s),
        signup = (\<lambda>d. Inl TypeError), createTrigger = (\<lambda>d. Inl TypeError)\<rparr>"]
    handleComplete_spec [of
      "\<lparr>step = 3, name = ''Jean'', phone = ''677000111'',
        selectedTeam = Some \<lparr>team_id = 42, team_name = ''Arsenal'',
                             team_league = ''Premier League'', team_logo = ''R''\<rparr>,
        selectedEvent = ''WIN'', amount = 1000, loading = False, error = [],
        store = \<lparr>session = \<lparr>userId = Some JNull, displayName = Some JNull,
                              referralCode = Some JNull\<rparr>,
                  localStorage = Map.empty\<rparr>,
        location_href = ''/onboarding'', calls = []\<rparr>"
      "\<lparr>now = 1700000000000, random99 = 42,
        slice = (\<lambda>s i j. take (j - i) (drop i s)),
        toUpperCase = (\<lambda>s. if s = ''Je'' then ''JE'' else s),
        signup = (\<lambda>d. Inl TypeError), createTrigger = (\<lambda>d. Inl TypeError)\<rparr>"]
    handleComplete_spec [of
      "\<lparr>step = 3, name = ''Jean'', phone = ''677000111'',
        selectedTeam = Some \<lparr>team_id = 42, team_name = ''Arsenal'',
                             team_league = ''Premier League'', team_logo = ''R''\<rparr>,
        selectedEvent = ''WIN'', amount = 1000, loading = False, error = [],
        store = \<lparr>session = \<lparr>userId = Some JNull, displayName = Some JNull,
                              referralCode = Some JNull\<rparr>,
                  localStorage = Map.empty\<rparr>,
        location_href = ''/onboarding'', calls = []\<rparr>"
      "\<lparr>now = 1700000000000, random99 = 42,
        slice = (\<lambda>s i j. take (j - i) (drop i s)),
        toUpperCase = (\<lambda>s. if s = ''Je'' then ''JE'' else s),
        signup = (\<lambda>d. Inr (JObj [(''user_id'', JStr ''u_77''),
                                    (''referral_code'', JStr ''SCORAB12''),
                                    (''message'', JStr ''ok'')])),
        createTrigger = (\<lambda>d. Inl TypeError)\<rparr>"]
  by (simp add: decimal.simps digit_char_def member_def)

subsection \<open>Interest and total of the simulator\<close>

lemma Math_round_tenth: "Math_round (of_int a * interestRate) = (a + 5) div 10"
proof -
  have "of_int a * interestRate + 1 / 2 = (of_int (a + 5) :: rat) / of_int 10"
    by (simp add: interestRate_def field_simps)
  then show ?thesis
    unfolding Math_round_def by (simp only: floor_divide_of_int_eq)
qed

lemma interest_eq: "interest st = (cp_amount st + 5) div 10"
  by (simp add: interest_def Math_round_tenth)

lemma slider_value_multiple:
  assumes "slider_value mx v"
  shows "v mod 1000 = 0"
proof -
  from assms have "(v - 1000) mod 1000 = 0"
    unfolding slider_value_def by (elim conjE)
  then have "1000 dvd v - 1000"
    by (rule mod_0_imp_dvd)
  then have "1000 dvd v - 1000 + 1000"
    by (rule dvd_add) (rule dvd_refl)
  moreover have "v - 1000 + 1000 = v"
    by (rule diff_add_cancel)
  ultimately have "1000 dvd v"
    by (simp only:)
  then show ?thesis
    by (rule dvd_imp_mod_0)
qed

lemma round_tenth_near:
  fixes a :: int
  shows "\<bar>10 * ((a + 5) div 10) - a\<bar> \<le> 5"
proof -
  have "a + 5 = 10 * ((a + 5) div 10) + (a + 5) mod 10"
    by simp
  moreover have "0 \<le> (a + 5) mod 10" "(a + 5) mod 10 < 10"
    by simp_all
  ultimately show ?thesis
    by linarith
qed

lemma round_tenth_exact:
  fixes a :: int
  assumes "a mod 1000 = 0"
  shows "10 * ((a + 5) div 10) = a"
proof -
  from assms have "1000 dvd a"
    by (simp add: dvd_eq_mod_eq_0)
  then obtain k where k: "a = 1000 * k" ..
  have "a + 5 = 10 * (100 * k) + 5"
    by (simp add: k)
  then have "(a + 5) div 10 = 100 * k + 5 div 10"
    by (simp only: div_mult_self4 [of 10 "100 * k" 5, simplified])
  then show ?thesis
    by (simp add: k)
qed

text \<open>
  C4: in the simulator \<open>interest = Math.round(amount * 0.10)\<close> and
  \<open>total = amount + interest\<close>. The interest is the amount divided by ten and rounded to
  the nearest unit, so within half a unit of 10% for every whole amount; for every amount
  the page can hold (the initial 10000, or a position of the slider, which moves in steps
  of 1000 from 1000) it is exactly 10% of the principal, and the total is exactly 110%.
\<close>

theorem simulator_interest:
  "interest st = (cp_amount st + 5) div 10
   \<and> \<bar>10 * interest st - cp_amount st\<bar> \<le> 5
   \<and> total st = cp_amount st + interest st
   \<and> (cp_amount st = 10000 \<or> slider_value (sc_max_loan_fcfa (cp_score st)) (cp_amount st) \<longrightarrow>
         10 * interest st = cp_amount st \<and> 10 * total st = 11 * cp_amount st)"
proof -
  have i: "interest st = (cp_amount st + 5) div 10"
    by (rule interest_eq)
  have near: "\<bar>10 * interest st - cp_amount st\<bar> \<le> 5"
    unfolding i by (rule round_tenth_near)
  have t: "total st = cp_amount st + interest st"
    by (simp add: total_def)
  have exact: "10 * interest st = cp_amount st \<and> 10 * total st = 11 * cp_amount st"
    if "cp_amount st = 10000 \<or> slider_value (sc_max_loan_fcfa (cp_score st)) (cp_amount st)"
  proof -
    from that have "cp_amount st mod 1000 = 0"
    proof
      assume "cp_amount st = 10000"
      then show ?thesis by simp
    next
      assume "slider_value (sc_max_loan_fcfa (cp_score st)) (cp_amount st)"
      then show ?thesis by (rule slider_value_multiple)
    qed
    then have "10 * ((cp_amount st + 5) div 10) = cp_amount st"
      by (rule round_tenth_exact)
    then show ?thesis
      unfolding t i by simp
  qed
  from i near t exact show ?thesis
    by blast
qed

theorem simulator_interest_witness:
  "interest (setAmount 15000 (CreditPage_initial None)) = 1500
   \<and> total (setAmount 15000 (CreditPage_initial None)) = 16500
   \<and> slider_value (sc_max_loan_fcfa (cp_score (setAmount 15000 (CreditPage_initial None)))) 15000
   \<and> interest (CreditPage_initial None) = 1000
   \<and> total (CreditPage_initial None) = 11000"
proof -
  have a: "cp_amount (setAmount 15000 (CreditPage_initial None)) = 15000"
    by (simp add: setAmount_def)
  have b: "cp_amount (CreditPage_initial None) = 10000"
    by (simp add: CreditPage_initial_def)
  have c: "slider_value (sc_max_loan_fcfa (cp_score (setAmount 15000 (CreditPage_initial None)))) 15000"
    by (simp add: setAmount_def CreditPage_initial_def FALLBACK_SCORE_def slider_value_def)
  from simulator_interest [of "setAmount 15000 (CreditPage_initial None)"]
  have "interest (setAmount 15000 (CreditPage_initial None)) = 1500
      \<and> total (setAmount 15000 (CreditPage_initial None)) = 16500"
    unfolding a by simp
  moreover from simulator_interest [of "CreditPage_initial None"]
  have "interest (CreditPage_initial None) = 1000 \<and> total (CreditPage_initial None) = 11000"
    unfolding b by simp
  ultimately show ?thesis
    using c by simp
qed

subsection \<open>Applying for a loan\<close>




subsection \<open>The order of the explanations\<close>

text \<open>
  C7 (as stated): every list of explanations is sorted by descending magnitude of impact,
  the four entries of \<open>FALLBACK_SCORE\<close> in particular. Its impacts are 0.72, 0.55, 0.61,
  0.45: the second is below the third.
\<close>

theorem explanations_order_counterexample:
  "\<not> descending_impact (sc_explanations FALLBACK_SCORE)"
  by (simp add: descending_impact_def FALLBACK_SCORE_def)

text \<open>
  C7 (amended): the page does not sort. It shows one row for each explanation of the
  score it holds, in the order of that list, each row drawn from the description and the
  impact of its explanation; so the rows are in descending order of impact exactly when the
  list received is. The fallback score lists its features in the order savings discipline,
  MoMo activity, telecom stability, behavioural score, with the impacts 0.72, 0.55, 0.61,
  0.45.
\<close>

theorem explanations_order:
  "map row_description (explanation_rows s) = map ex_description (sc_explanations s)
   \<and> map row_impact (explanation_rows s) = map ex_impact (sc_explanations s)
   \<and> length (explanation_rows s) = length (sc_explanations s)
   \<and> sorted_wrt (\<lambda>a b. \<bar>row_impact a\<bar> \<ge> \<bar>row_impact b\<bar>) (explanation_rows s)
       = descending_impact (sc_explanations s)
   \<and> map ex_feature (sc_explanations FALLBACK_SCORE)
       = [''savings_discipline'', ''momo_activity'', ''telecom_stability'', ''behavioral_score'']
   \<and> map ex_impact (sc_explanations FALLBACK_SCORE) = [72 / 100, 55 / 100, 61 / 100, 45 / 100]"
proof -
  have "map row_description (explanation_rows s) = map ex_description (sc_explanations s)"
    by (simp add: explanation_rows_def explanation_row_def)
  moreover have "map row_impact (explanation_rows s) = map ex_impact (sc_explanations s)"
    by (simp add: explanation_rows_def explanation_row_def)
  moreover have "length (explanation_rows s) = length (sc_explanations s)"
    by (simp add: explanation_rows_def)
  moreover have "sorted_wrt (\<lambda>a b. \<bar>row_impact a\<bar> \<ge> \<bar>row_impact b\<bar>) (explanation_rows s)
       = descending_impact (sc_explanations s)"
    by (simp add: explanation_rows_def explanation_row_def descending_impact_def sorted_wrt_map)
  moreover have "map ex_feature (sc_explanations FALLBACK_SCORE)
       = [''savings_discipline'', ''momo_activity'', ''telecom_stability'', ''behavioral_score'']"
    by (simp add: FALLBACK_SCORE_def)
  moreover have "map ex_impact (sc_explanations FALLBACK_SCORE)
       = [72 / 100, 55 / 100, 61 / 100, 45 / 100]"
    by (simp add: FALLBACK_SCORE_def)
  ultimately show ?thesis
    by simp
qed

subsection \<open>The tiers\<close>

lemma TIERS_read:
  "map (\<lambda>t. (range_low (tier_range t), range_high (tier_range t), number_shown (tier_max t))) TIERS
     = [(0, 399, 0), (400, 599, 15000), (600, 799, 75000), (800, 1000, 200000)]"
  by (simp add: TIERS_def range_low_def range_high_def number_shown_def digit_of_def)

lemma TIERS_names:
  "map tier_name TIERS = map tier_label [Debutant, Confirme, Expert, Elite]"
  by (simp add: TIERS_def tier_label_def)

lemma tier_row_of_score_eq:
  "tier_row_of_score s =
     (if 0 \<le> s \<and> s \<le> 399 then Some (TIERS ! 0)
      else if 400 \<le> s \<and> s \<le> 599 then Some (TIERS ! 1)
      else if 600 \<le> s \<and> s \<le> 799 then Some (TIERS ! 2)
      else if 800 \<le> s \<and> s \<le> 1000 then Some (TIERS ! 3)
      else None)"
  by (simp add: tier_row_of_score_def TIERS_def range_low_def range_high_def number_shown_def
      digit_of_def)

lemma TIERS_rows:
  "(tier_name (TIERS ! 0), int (number_shown (tier_max (TIERS ! 0)))) = (tier_label Debutant, max_loan Debutant)"
  "(tier_name (TIERS ! 1), int (number_shown (tier_max (TIERS ! 1)))) = (tier_label Confirme, max_loan Confirme)"
  "(tier_name (TIERS ! 2), int (number_shown (tier_max (TIERS ! 2)))) = (tier_label Expert, max_loan Expert)"
  "(tier_name (TIERS ! 3), int (number_shown (tier_max (TIERS ! 3)))) = (tier_label Elite, max_loan Elite)"
  by (simp_all add: TIERS_def tier_label_def max_loan_def number_shown_def digit_of_def)

lemma tier_table_agrees:
  "map_option (\<lambda>t. (tier_name t, int (number_shown (tier_max t)))) (tier_row_of_score s)
     = map_option (\<lambda>t. (tier_label t, max_loan t)) (tier_of_score s)"
proof -
  consider "s < 0 \<or> 1000 < s" | "0 \<le> s \<and> s \<le> 399" | "400 \<le> s \<and> s \<le> 599"
    | "600 \<le> s \<and> s \<le> 799" | "800 \<le> s \<and> s \<le> 1000"
    by linarith
  then show ?thesis
  proof cases
    case 1
    then show ?thesis
      unfolding tier_row_of_score_eq tier_of_score_def by auto
  next
    case 2
    then show ?thesis
      unfolding tier_row_of_score_eq tier_of_score_def using TIERS_rows(1) by simp
  next
    case 3
    then show ?thesis
      unfolding tier_row_of_score_eq tier_of_score_def using TIERS_rows(2) by simp
  next
    case 4
    then show ?thesis
      unfolding tier_row_of_score_eq tier_of_score_def using TIERS_rows(3) by simp
  next
    case 5
    then show ?thesis
      unfolding tier_row_of_score_eq tier_of_score_def using TIERS_rows(4) by simp
  qed
qed

text \<open>
  C2: the tier of a score is the step function with the breakpoints 0-399, 400-599,
  600-799, 800-1000 and the ceilings 0, 15000, 75000, 200000; score 399 is \<open>Debutant\<close>
  with ceiling 0 and score 400 is \<open>Confirme\<close> with ceiling 15000. The table \<open>TIERS\<close> of
  the client has four rows, with these names, ranges and ceilings, so that looking a score
  up in the table gives the name and the ceiling of the step function, for every score.
\<close>

theorem tier_step_function:
  "tier_of_score 399 = Some Debutant \<and> max_loan Debutant = 0
   \<and> tier_of_score 400 = Some Confirme \<and> max_loan Confirme = 15000
   \<and> map max_loan [Debutant, Confirme, Expert, Elite] = [0, 15000, 75000, 200000]
   \<and> length TIERS = 4
   \<and> map tier_name TIERS = map tier_label [Debutant, Confirme, Expert, Elite]
   \<and> map (\<lambda>t. (range_low (tier_range t), range_high (tier_range t), number_shown (tier_max t))) TIERS
       = [(0, 399, 0), (400, 599, 15000), (600, 799, 75000), (800, 1000, 200000)]
   \<and> (\<forall>s. map_option (\<lambda>t. (tier_name t, int (number_shown (tier_max t)))) (tier_row_of_score s)
            = map_option (\<lambda>t. (tier_label t, max_loan t)) (tier_of_score s))
   \<and> map_option tier_max (tier_row_of_score 399) = Some ''0 FCFA''
   \<and> map_option tier_max (tier_row_of_score 400) = Some ''15 000 FCFA''"
proof -
  have "tier_of_score 399 = Some Debutant \<and> max_loan Debutant = 0
      \<and> tier_of_score 400 = Some Confirme \<and> max_loan Confirme = 15000
      \<and> map max_loan [Debutant, Confirme, Expert, Elite] = [0, 15000, 75000, 200000]"
    by (simp add: tier_of_score_def max_loan_def)
  moreover have "length TIERS = 4"
    by (simp add: TIERS_def)
  moreover have "map_option tier_max (tier_row_of_score 399) = Some ''0 FCFA''
      \<and> map_option tier_max (tier_row_of_score 400) = Some ''15 000 FCFA''"
    unfolding tier_row_of_score_eq by (simp add: TIERS_def)
  ultimately show ?thesis
    using TIERS_names TIERS_read tier_table_agrees by simp
qed

subsection \<open>Idempotent ingestion\<close>











subsection \<open>The balance identity of the ledger\<close>

lemma entry_total_Nil [simp]: "entry_total p [] = 0"
  by (simp add: entry_total_def)

lemma entry_total_Cons [simp]:
  "entry_total p (e # es) = (if p e then le_amount e else 0) + entry_total p es"
  by (simp add: entry_total_def)

lemma entry_total_append [simp]:
  "entry_total p (es @ fs) = entry_total p es + entry_total p fs"
  by (simp add: entry_total_def)






































end
